theory Spec2Isabelle
  imports Main
begin

section \<open>JavaScript values\<close>

text \<open>
  The panels handle style values read from the global-styles store: \<open>undefined\<close>, a CSS
  string such as \<open>"4px"\<close>, or a plain object keyed by side, axis or corner. An object is
  an association list of its own enumerable properties in insertion order, with distinct
  keys. Numbers are integers here: the code only tests them for truthiness and hands
  them on. Members inherited from a prototype (the members of \<open>Object.prototype\<close>, a
  string's \<open>length\<close> and indices) are not part of the model: reading a property that is
  not an own property of an object gives \<open>undefined\<close>, and assigning to any name makes
  an own property. That is what JavaScript does for every name but those of
  \<open>object_prototype_names\<close> below, and the property of subset entries that name
  neither a side nor an axis is stated for the names outside that list.
\<close>

datatype jsval =
    JSUndefined
  | JSNull
  | JSBool bool
  | JSNum int
  | JSStr string
  | JSObj "(string \<times> jsval) list"

datatype error = TypeError

type_synonym props = "(string \<times> jsval) list"

text \<open>\<open>!! v\<close>: the truthiness of a value.\<close>

fun truthy :: "jsval \<Rightarrow> bool" where
  "truthy JSUndefined = False"
| "truthy JSNull = False"
| "truthy (JSBool b) = b"
| "truthy (JSNum n) = (n \<noteq> 0)"
| "truthy (JSStr s) = (s \<noteq> [])"
| "truthy (JSObj ps) = True"

text \<open>\<open>typeof v\<close>; \<open>typeof null\<close> is \<open>"object"\<close>.\<close>

fun typeof :: "jsval \<Rightarrow> string" where
  "typeof JSUndefined = ''undefined''"
| "typeof JSNull = ''object''"
| "typeof (JSBool b) = ''boolean''"
| "typeof (JSNum n) = ''number''"
| "typeof (JSStr s) = ''string''"
| "typeof (JSObj ps) = ''object''"

text \<open>\<open>v || undefined\<close>.\<close>

definition or_undefined :: "jsval \<Rightarrow> jsval" where
  "or_undefined v = (if truthy v then v else JSUndefined)"

text \<open>Reading an own property of an object literal: a missing key reads \<open>undefined\<close>.\<close>

definition get_own :: "props \<Rightarrow> string \<Rightarrow> jsval" where
  "get_own ps k = (case map_of ps k of None \<Rightarrow> JSUndefined | Some v \<Rightarrow> v)"

text \<open>\<open>v.k\<close> and \<open>v[k]\<close>: a TypeError on \<open>undefined\<close> and \<open>null\<close>.\<close>

fun get_prop :: "jsval \<Rightarrow> string \<Rightarrow> error + jsval" where
  "get_prop JSUndefined k = Inl TypeError"
| "get_prop JSNull k = Inl TypeError"
| "get_prop (JSObj ps) k = Inr (get_own ps k)"
| "get_prop v k = Inr JSUndefined"

text \<open>\<open>v?.k\<close>: \<open>undefined\<close> on \<open>undefined\<close> and \<open>null\<close>, never an error.\<close>

fun get_prop_opt :: "jsval \<Rightarrow> string \<Rightarrow> jsval" where
  "get_prop_opt (JSObj ps) k = get_own ps k"
| "get_prop_opt v k = JSUndefined"

text \<open>
  \<open>o[k] = v\<close> on an object under construction: an existing key keeps its place and takes
  the new value, a new key is appended.
\<close>

fun set_prop :: "props \<Rightarrow> string \<Rightarrow> jsval \<Rightarrow> props" where
  "set_prop [] k v = [(k, v)]"
| "set_prop ((k', v') # ps) k v =
     (if k' = k then (k, v) # ps else (k', v') # set_prop ps k v)"

text \<open>
  The own property names of \<open>Object.prototype\<close>. Read from a plain object they give
  an inherited function (\<open>__proto__\<close>: the prototype itself) where \<open>get_prop\<close> gives
  \<open>undefined\<close>, and assigning to \<open>__proto__\<close> makes no own property where
  \<open>set_prop\<close> makes one: on these names the model is not the program.
\<close>

definition object_prototype_names :: "string list" where
  "object_prototype_names =
     [''constructor'', ''__proto__'', ''hasOwnProperty'', ''isPrototypeOf'',
      ''propertyIsEnumerable'', ''toLocaleString'', ''toString'', ''valueOf'',
      ''__defineGetter__'', ''__defineSetter__'', ''__lookupGetter__'', ''__lookupSetter__'']"

text \<open>\<open>Object.keys( v ).length\<close>: a TypeError on \<open>undefined\<close> and \<open>null\<close>; a string has
  one index key per character; numbers and booleans have no own keys.\<close>

fun object_keys_length :: "jsval \<Rightarrow> error + nat" where
  "object_keys_length JSUndefined = Inl TypeError"
| "object_keys_length JSNull = Inl TypeError"
| "object_keys_length (JSObj ps) = Inr (length ps)"
| "object_keys_length (JSStr s) = Inr (length s)"
| "object_keys_length v = Inr 0"

text \<open>
  \<open>Object.entries( v )\<close> for a value whose \<open>typeof\<close> is \<open>"object"\<close>: the entries of
  an object, each entry \<open>[ key, value ]\<close> kept as a pair, and a TypeError on \<open>null\<close>.
  No other value has that \<open>typeof\<close>.
\<close>

fun object_entries :: "jsval \<Rightarrow> error + (string \<times> jsval) list" where
  "object_entries (JSObj ps) = Inr ps"
| "object_entries v = Inl TypeError"

text \<open>\<open>Boolean( [ key, value ] )\<close>: an entry is an array, and every array is truthy.\<close>

definition entry_truthy :: "string \<times> jsval \<Rightarrow> bool" where
  "entry_truthy e = True"

section \<open>The dimensions panel: filtering and splitting\<close>

text \<open>
  \<open>sides\<close> is what \<open>useCustomSides\<close> returned for the block: \<open>undefined\<close> (\<open>None\<close>)
  or the array of side names the block declares (\<open>Some\<close>; an array is truthy even when
  empty).
\<close>

type_synonym sides = "string list option"

text \<open>The body of the \<open>forEach\<close> callback of \<open>filterValuesBySides\<close>, on one entry.\<close>

definition filterValuesBySides_vertical :: "jsval \<Rightarrow> props \<Rightarrow> error + props" where
  "filterValuesBySides_vertical values filteredValues =
     (case get_prop values ''top'' of
        Inl e \<Rightarrow> Inl e
      | Inr t \<Rightarrow>
          (case get_prop values ''bottom'' of
             Inl e \<Rightarrow> Inl e
           | Inr b \<Rightarrow> Inr (set_prop (set_prop filteredValues ''top'' t) ''bottom'' b)))"

definition filterValuesBySides_horizontal :: "jsval \<Rightarrow> props \<Rightarrow> error + props" where
  "filterValuesBySides_horizontal values filteredValues =
     (case get_prop values ''left'' of
        Inl e \<Rightarrow> Inl e
      | Inr l \<Rightarrow>
          (case get_prop values ''right'' of
             Inl e \<Rightarrow> Inl e
           | Inr r \<Rightarrow> Inr (set_prop (set_prop filteredValues ''left'' l) ''right'' r)))"

definition filterValuesBySides_side :: "jsval \<Rightarrow> props \<Rightarrow> string \<Rightarrow> error + props" where
  "filterValuesBySides_side values filteredValues side =
     (case (if side = ''vertical'' then filterValuesBySides_vertical values filteredValues
            else Inr filteredValues) of
        Inl e \<Rightarrow> Inl e
      | Inr fv1 \<Rightarrow>
          (case (if side = ''horizontal'' then filterValuesBySides_horizontal values fv1
                 else Inr fv1) of
             Inl e \<Rightarrow> Inl e
           | Inr fv2 \<Rightarrow>
               (case get_prop values side of
                  Inl e \<Rightarrow> Inl e
                | Inr v \<Rightarrow> Inr (set_prop fv2 side v))))"

text \<open>\<open>sides.forEach( ... )\<close>: the entries in order, stopping at the first exception.\<close>

fun filterValuesBySides_forEach :: "jsval \<Rightarrow> string list \<Rightarrow> props \<Rightarrow> error + props" where
  "filterValuesBySides_forEach values [] filteredValues = Inr filteredValues"
| "filterValuesBySides_forEach values (side # rest) filteredValues =
     (case filterValuesBySides_side values filteredValues side of
        Inl e \<Rightarrow> Inl e
      | Inr fv \<Rightarrow> filterValuesBySides_forEach values rest fv)"

definition filterValuesBySides :: "jsval \<Rightarrow> sides \<Rightarrow> error + jsval" where
  "filterValuesBySides values sides =
     (case sides of
        None \<Rightarrow> Inr values
      | Some ss \<Rightarrow>
          (case filterValuesBySides_forEach values ss [] of
             Inl e \<Rightarrow> Inl e
           | Inr fv \<Rightarrow> Inr (JSObj fv)))"

text \<open>\<open>filterGapValuesBySides\<close> reads with \<open>?.\<close> only, so it never throws.\<close>

definition filterGapValuesBySides_side :: "jsval \<Rightarrow> props \<Rightarrow> string \<Rightarrow> props" where
  "filterGapValuesBySides_side values filteredValues side =
     (let fv1 = (if side = ''horizontal''
                 then set_prop filteredValues ''column'' (get_prop_opt values ''left'')
                 else filteredValues)
      in if side = ''vertical'' then set_prop fv1 ''row'' (get_prop_opt values ''top'')
         else fv1)"

fun filterGapValuesBySides_forEach :: "jsval \<Rightarrow> string list \<Rightarrow> props \<Rightarrow> props" where
  "filterGapValuesBySides_forEach values [] filteredValues = filteredValues"
| "filterGapValuesBySides_forEach values (side # rest) filteredValues =
     filterGapValuesBySides_forEach values rest
       (filterGapValuesBySides_side values filteredValues side)"

definition filterGapValuesBySides :: "jsval \<Rightarrow> sides \<Rightarrow> jsval" where
  "filterGapValuesBySides values sides =
     (case sides of
        None \<Rightarrow>
          JSObj [(''row'', get_prop_opt values ''top''),
                 (''column'', get_prop_opt values ''left'')]
      | Some ss \<Rightarrow> JSObj (filterGapValuesBySides_forEach values ss []))"

definition splitStyleValue :: "jsval \<Rightarrow> jsval" where
  "splitStyleValue v =
     (if truthy v \<and> typeof v = ''string''
      then JSObj [(''top'', v), (''right'', v), (''bottom'', v), (''left'', v)]
      else v)"

definition splitGapStyleValue :: "jsval \<Rightarrow> jsval" where
  "splitGapStyleValue v =
     (if truthy v \<and> typeof v = ''string''
      then JSObj [(''top'', v), (''right'', v), (''bottom'', v), (''left'', v)]
      else JSObj [(''top'', get_prop_opt v ''row''),
                  (''right'', get_prop_opt v ''column''),
                  (''bottom'', get_prop_opt v ''row''),
                  (''left'', get_prop_opt v ''column'')])"

section \<open>The dimensions panel: the controllers\<close>

text \<open>
  Modelled from the spec: the style store behind the \<open>getStyle\<close> and \<open>setStyle\<close> props
  of \<open>DimensionsPanel\<close>, which the panel receives from its caller. The spec gives it as a
  key/value interface, \<open>get( entity, path )\<close> and \<open>set( entity, path, value )\<close>; the
  entity \<open>name\<close> is fixed throughout a panel, so a store is a function from the property
  path to the value last set there.
\<close>

type_synonym store = "string \<Rightarrow> jsval"

definition getStyle :: "store \<Rightarrow> string \<Rightarrow> jsval" where
  "getStyle st path = st path"

definition setStyle :: "store \<Rightarrow> string \<Rightarrow> jsval \<Rightarrow> store" where
  "setStyle st path v = st(path := v)"

text \<open>
  \<open>!! values && Object.keys( values ).length\<close>: \<open>false\<close> when \<open>values\<close> is falsy,
  the number of keys otherwise. The panel item reads the result for its truthiness.
\<close>

definition has_keys :: "jsval \<Rightarrow> error + jsval" where
  "has_keys values =
     (if truthy values
      then (case object_keys_length values of
              Inl e \<Rightarrow> Inl e
            | Inr n \<Rightarrow> Inr (JSNum (int n)))
      else Inr (JSBool False))"

definition paddingValues :: "store \<Rightarrow> jsval" where
  "paddingValues st = splitStyleValue (getStyle st ''padding'')"

definition setPaddingValues :: "sides \<Rightarrow> store \<Rightarrow> jsval \<Rightarrow> error + store" where
  "setPaddingValues paddingSides st newPaddingValues =
     (case filterValuesBySides newPaddingValues paddingSides of
        Inl e \<Rightarrow> Inl e
      | Inr padding \<Rightarrow> Inr (setStyle st ''padding'' padding))"

definition resetPaddingValue :: "sides \<Rightarrow> store \<Rightarrow> error + store" where
  "resetPaddingValue paddingSides st = setPaddingValues paddingSides st (JSObj [])"

definition hasPaddingValue :: "store \<Rightarrow> error + jsval" where
  "hasPaddingValue st = has_keys (paddingValues st)"

definition marginValues :: "store \<Rightarrow> jsval" where
  "marginValues st = splitStyleValue (getStyle st ''margin'')"

definition setMarginValues :: "sides \<Rightarrow> store \<Rightarrow> jsval \<Rightarrow> error + store" where
  "setMarginValues marginSides st newMarginValues =
     (case filterValuesBySides newMarginValues marginSides of
        Inl e \<Rightarrow> Inl e
      | Inr margin \<Rightarrow> Inr (setStyle st ''margin'' margin))"

definition resetMarginValue :: "sides \<Rightarrow> store \<Rightarrow> error + store" where
  "resetMarginValue marginSides st = setMarginValues marginSides st (JSObj [])"

definition hasMarginValue :: "store \<Rightarrow> error + jsval" where
  "hasMarginValue st = has_keys (marginValues st)"

definition gapValues :: "store \<Rightarrow> jsval" where
  "gapValues st = splitGapStyleValue (getStyle st ''--wp--style--block-gap'')"

definition setGapValues :: "sides \<Rightarrow> store \<Rightarrow> jsval \<Rightarrow> store" where
  "setGapValues gapSides st newGapValues =
     setStyle st ''--wp--style--block-gap'' (filterGapValuesBySides newGapValues gapSides)"

definition resetGapValue :: "sides \<Rightarrow> store \<Rightarrow> store" where
  "resetGapValue gapSides st = setGapValues gapSides st (JSObj [])"

definition hasGapValue :: "store \<Rightarrow> error + jsval" where
  "hasGapValue st = has_keys (gapValues st)"

text \<open>How the panel item reads a \<open>hasValue\<close> result: an exception is not a value.\<close>

definition reports_value :: "error + jsval \<Rightarrow> bool" where
  "reports_value r = (case r of Inl e \<Rightarrow> False | Inr v \<Rightarrow> truthy v)"

section \<open>The border panel\<close>

text \<open>
  Each \<open>useStyle( path, name )\<close> gives the current value at \<open>path\<close> and a setter that
  writes there; a setter is identified with its path. The handlers' effect is the
  sequence of writes they make, in order.
\<close>

type_synonym store_write = "string \<times> jsval"

definition apply_writes :: "store \<Rightarrow> store_write list \<Rightarrow> store" where
  "apply_writes st ws = foldl (\<lambda>s w. setStyle s (fst w) (snd w)) st ws"

definition handleOnChange :: "string \<Rightarrow> jsval \<Rightarrow> store_write list" where
  "handleOnChange setter v = [(setter, or_undefined v)]"

definition handleOnChangeWithStyle :: "jsval \<Rightarrow> string \<Rightarrow> jsval \<Rightarrow> store_write list" where
  "handleOnChangeWithStyle borderStyle setter v =
     (if truthy v \<and> \<not> truthy borderStyle then [(''border.style'', JSStr ''solid'')] else [])
     @ [(setter, or_undefined v)]"

text \<open>The three edits of the panel, on the store the panel was rendered from.\<close>

definition onChangeBorderWidth :: "store \<Rightarrow> jsval \<Rightarrow> store_write list" where
  "onChangeBorderWidth st v =
     handleOnChangeWithStyle (getStyle st ''border.style'') ''border.width'' v"

definition onChangeBorderStyle :: "store \<Rightarrow> jsval \<Rightarrow> store_write list" where
  "onChangeBorderStyle st v = handleOnChange ''border.style'' v"

definition onChangeBorderColor :: "store \<Rightarrow> jsval \<Rightarrow> store_write list" where
  "onChangeBorderColor st v =
     handleOnChangeWithStyle (getStyle st ''border.style'') ''border.color'' v"

text \<open>\<open>hasBorderRadius\<close>, on the border styles of the \<open>user\<close> origin.\<close>

definition hasBorderRadius :: "jsval \<Rightarrow> error + jsval" where
  "hasBorderRadius userBorderStyles =
     (let borderValues = get_prop_opt userBorderStyles ''radius''
      in if typeof borderValues = ''object''
         then (case object_entries borderValues of
                 Inl e \<Rightarrow> Inl e
               | Inr es \<Rightarrow> Inr (JSBool (list_ex entry_truthy es)))
         else Inr (JSBool (truthy borderValues)))"

section \<open>Inputs of the examples\<close>

text \<open>A store in which nothing has been set: every path reads \<open>undefined\<close>.\<close>

definition empty_store :: store where
  "empty_store = (\<lambda>path. JSUndefined)"

section \<open>Properties of the object operations\<close>

lemma set_prop_keys: "fst ` set (set_prop ps k v) = insert k (fst ` set ps)"
  by (induction ps) (auto split: if_splits simp: rev_image_eqI)

lemma map_of_set_prop: "map_of (set_prop ps k v) = (map_of ps)(k \<mapsto> v)"
  by (induction ps) (auto simp: fun_eq_iff)

lemma list_ex_entry_truthy: "list_ex entry_truthy es = (es \<noteq> [])"
  by (cases es) (simp_all add: entry_truthy_def)

section \<open>Properties of the gap filter\<close>

lemma gap_side_cong:
  assumes "get_prop_opt v1 ''top'' = get_prop_opt v2 ''top''"
    and "get_prop_opt v1 ''left'' = get_prop_opt v2 ''left''"
  shows "filterGapValuesBySides_side v1 fv side = filterGapValuesBySides_side v2 fv side"
  using assms by (simp add: filterGapValuesBySides_side_def)

lemma gap_forEach_cong:
  assumes "get_prop_opt v1 ''top'' = get_prop_opt v2 ''top''"
    and "get_prop_opt v1 ''left'' = get_prop_opt v2 ''left''"
  shows "filterGapValuesBySides_forEach v1 ss fv = filterGapValuesBySides_forEach v2 ss fv"
proof (induction ss arbitrary: fv)
  case Nil
  show ?case by simp
next
  case (Cons s ss)
  show ?case
    by (simp add: gap_side_cong [OF assms] Cons.IH)
qed

lemma gap_side_other:
  "side \<noteq> ''horizontal'' \<Longrightarrow> side \<noteq> ''vertical'' \<Longrightarrow>
   filterGapValuesBySides_side v fv side = fv"
  by (simp add: filterGapValuesBySides_side_def)

lemma gap_forEach_axial_only:
  "filterGapValuesBySides_forEach v
     (filter (\<lambda>s. s = ''horizontal'' \<or> s = ''vertical'') ss) fv =
   filterGapValuesBySides_forEach v ss fv"
  by (induction ss arbitrary: fv) (simp_all add: gap_side_other)

lemma gap_side_keys:
  "fst ` set (filterGapValuesBySides_side v fv side) =
   fst ` set fv \<union> (if side = ''horizontal'' then {''column''} else {})
     \<union> (if side = ''vertical'' then {''row''} else {})"
  by (simp add: filterGapValuesBySides_side_def set_prop_keys)

lemma gap_forEach_keys:
  "fst ` set (filterGapValuesBySides_forEach v ss fv) =
   fst ` set fv \<union> (if ''horizontal'' \<in> set ss then {''column''} else {})
     \<union> (if ''vertical'' \<in> set ss then {''row''} else {})"
  by (induction ss arbitrary: fv) (auto simp: gap_side_keys)

section \<open>Properties of the side filter on an object\<close>

lemma side_obj:
  "filterValuesBySides_side (JSObj kv) fv side =
     Inr (set_prop
       (if side = ''vertical''
        then set_prop (set_prop fv ''top'' (get_own kv ''top'')) ''bottom'' (get_own kv ''bottom'')
        else if side = ''horizontal''
        then set_prop (set_prop fv ''left'' (get_own kv ''left'')) ''right'' (get_own kv ''right'')
        else fv)
       side (get_own kv side))"
  by (simp add: filterValuesBySides_side_def filterValuesBySides_vertical_def
      filterValuesBySides_horizontal_def)

lemma forEach_obj_total: "\<exists>out. filterValuesBySides_forEach (JSObj kv) ss fv = Inr out"
  by (induction ss arbitrary: fv) (simp_all add: side_obj)

lemma forEach_obj_cong:
  assumes "\<And>k. get_own kv1 k = get_own kv2 k"
  shows "filterValuesBySides_forEach (JSObj kv1) ss fv =
         filterValuesBySides_forEach (JSObj kv2) ss fv"
  by (induction ss arbitrary: fv) (simp_all add: side_obj assms)

lemma side_obj_keys:
  assumes "filterValuesBySides_side (JSObj kv) fv s = Inr fv'"
  shows "insert s (fst ` set fv) \<subseteq> fst ` set fv'"
proof -
  obtain mid where fv': "fv' = set_prop mid s (get_own kv s)"
    and mid: "fst ` set fv \<subseteq> fst ` set mid"
  proof (cases "s = ''vertical''")
    case True
    with assms that [of "set_prop (set_prop fv ''top'' (get_own kv ''top''))
        ''bottom'' (get_own kv ''bottom'')"]
    show ?thesis unfolding side_obj set_prop_keys by auto
  next
    case nv: False
    show ?thesis
    proof (cases "s = ''horizontal''")
      case True
      with assms nv that [of "set_prop (set_prop fv ''left'' (get_own kv ''left''))
        ''right'' (get_own kv ''right'')"]
      show ?thesis unfolding side_obj set_prop_keys by auto
    next
      case False
      with assms nv that [of fv] show ?thesis unfolding side_obj by auto
    qed
  qed
  then show ?thesis by (auto simp: set_prop_keys)
qed

lemma forEach_obj_keys:
  "filterValuesBySides_forEach (JSObj kv) ss fv = Inr out \<Longrightarrow>
   fst ` set fv \<union> set ss \<subseteq> fst ` set out"
proof (induction ss arbitrary: fv)
  case Nil
  then show ?case by simp
next
  case (Cons s ss)
  from Cons.prems obtain fv' where
    step: "filterValuesBySides_side (JSObj kv) fv s = Inr fv'" and
    rest: "filterValuesBySides_forEach (JSObj kv) ss fv' = Inr out"
    by (auto split: sum.splits)
  from side_obj_keys [OF step] Cons.IH [OF rest] show ?case by auto
qed

lemma forEach_obj_values:
  "filterValuesBySides_forEach (JSObj kv) ss fv = Inr out \<Longrightarrow>
   (\<And>k v. map_of fv k = Some v \<Longrightarrow> v = get_own kv k) \<Longrightarrow>
   map_of out k = Some v \<Longrightarrow> v = get_own kv k"
proof (induction ss arbitrary: fv)
  case Nil
  then show ?case by simp
next
  case (Cons s ss)
  from Cons.prems(1) obtain fv' where
    step: "filterValuesBySides_side (JSObj kv) fv s = Inr fv'" and
    rest: "filterValuesBySides_forEach (JSObj kv) ss fv' = Inr out"
    by (auto split: sum.splits)
  have inv: "v' = get_own kv k'" if "map_of fv' k' = Some v'" for k' v'
    using step that Cons.prems(2)
    by (auto simp: side_obj map_of_set_prop split: if_splits)
  show ?case by (rule Cons.IH [OF rest inv Cons.prems(3)])
qed

lemma forEach_obj_lookup:
  assumes "filterValuesBySides_forEach (JSObj kv) ss [] = Inr out" and "e \<in> set ss"
  shows "map_of out e = Some (get_own kv e)"
proof -
  from forEach_obj_keys [OF assms(1)] assms(2) have "e \<in> fst ` set out" by auto
  then obtain v where v: "map_of out e = Some v"
    by (metis domD dom_map_of_conv_image_fst)
  with forEach_obj_values [OF assms(1), of e v] show ?thesis by simp
qed


lemma filter_obj_Some:
  "\<exists>out. filterValuesBySides (JSObj kv) (Some ss) = Inr (JSObj out) \<and>
     filterValuesBySides_forEach (JSObj kv) ss [] = Inr out"
  using forEach_obj_total [of kv ss "[]"] by (auto simp: filterValuesBySides_def)

lemma get_own_all_absent:
  "get_own [(''top'', JSUndefined), (''right'', JSUndefined),
            (''bottom'', JSUndefined), (''left'', JSUndefined)] k = get_own [] k"
  by (simp add: get_own_def)

lemma filter_all_absent:
  "filterValuesBySides
     (JSObj [(''top'', JSUndefined), (''right'', JSUndefined),
             (''bottom'', JSUndefined), (''left'', JSUndefined)]) (Some ss) =
   filterValuesBySides (JSObj []) (Some ss)"
  by (simp add: filterValuesBySides_def forEach_obj_cong [OF get_own_all_absent])

section \<open>Properties of the key count\<close>

lemma has_keys_split:
  "reports_value (has_keys (splitStyleValue v)) =
     (\<exists>ps. splitStyleValue v = JSObj ps \<and> ps \<noteq> [])"
  by (cases v) (auto simp: has_keys_def splitStyleValue_def reports_value_def)

lemma has_keys_split_total: "\<exists>r. has_keys (splitStyleValue v) = Inr r"
  by (cases v) (auto simp: has_keys_def splitStyleValue_def)

text \<open>
  \<open>splitGapStyleValue\<close> builds a four-key object from every input, so the key count of
  \<open>hasGapValue\<close> is 4 whatever the store holds.
\<close>

lemma hasGapValue_always: "hasGapValue st = Inr (JSNum 4)"
  by (simp add: hasGapValue_def gapValues_def splitGapStyleValue_def has_keys_def)

section \<open>The claims\<close>

subsection \<open>C1: what each subset entry contributes to the filtered mapping\<close>

text \<open>
  C1 says that a \<open>vertical\<close> entry contributes exactly the keys \<open>top\<close> and \<open>bottom\<close>,
  a \<open>horizontal\<close> entry exactly \<open>left\<close> and \<open>right\<close>, a discrete side exactly that edge,
  and that filtering the uniform \<open>4px\<close> mapping by \<open>[vertical]\<close> gives exactly
  \<open>{top: 4px, bottom: 4px}\<close>. In \<open>filterValuesBySides\<close> the assignment
  \<open>filteredValues[ side ] = values[ side ]\<close> follows the two axis tests without an
  \<open>else\<close>, so it also runs for an axis entry: on that very input the result carries a
  third key \<open>vertical\<close>, bound to \<open>undefined\<close>.
\<close>

theorem filterValuesBySides_vertical_stray_key:
  "filterValuesBySides
     (JSObj [(''top'', JSStr ''4px''), (''right'', JSStr ''4px''),
             (''bottom'', JSStr ''4px''), (''left'', JSStr ''4px'')])
     (Some [''vertical'']) =
   Inr (JSObj [(''top'', JSStr ''4px''), (''bottom'', JSStr ''4px''),
               (''vertical'', JSUndefined)])"
  by (simp add: filterValuesBySides_def filterValuesBySides_side_def
      filterValuesBySides_vertical_def get_own_def)

subsection \<open>C2: hasValue\<close>

text \<open>
  C2, as amended: for padding and margin, \<open>hasValue()\<close> never throws and is truthy exactly
  when the split value is a mapping with at least one key, whatever the values under
  the keys; in particular it returns \<open>false\<close> when the stored value is absent.
\<close>

theorem hasValue_counts_keys:
  "reports_value (hasPaddingValue st) = (\<exists>ps. paddingValues st = JSObj ps \<and> ps \<noteq> []) \<and>
   reports_value (hasMarginValue st) = (\<exists>ps. marginValues st = JSObj ps \<and> ps \<noteq> []) \<and>
   (\<exists>r. hasPaddingValue st = Inr r) \<and> (\<exists>r. hasMarginValue st = Inr r) \<and>
   (getStyle st ''padding'' = JSUndefined \<longrightarrow> hasPaddingValue st = Inr (JSBool False)) \<and>
   (getStyle st ''margin'' = JSUndefined \<longrightarrow> hasMarginValue st = Inr (JSBool False))"
proof -
  have "getStyle st ''padding'' = JSUndefined \<longrightarrow> hasPaddingValue st = Inr (JSBool False)"
    by (simp add: hasPaddingValue_def paddingValues_def has_keys_def splitStyleValue_def)
  moreover
  have "getStyle st ''margin'' = JSUndefined \<longrightarrow> hasMarginValue st = Inr (JSBool False)"
    by (simp add: hasMarginValue_def marginValues_def has_keys_def splitStyleValue_def)
  ultimately show ?thesis
    using has_keys_split [of "getStyle st ''padding''"]
      has_keys_split [of "getStyle st ''margin''"]
      has_keys_split_total [of "getStyle st ''padding''"]
      has_keys_split_total [of "getStyle st ''margin''"]
    by (simp add: hasPaddingValue_def paddingValues_def hasMarginValue_def marginValues_def)
qed

theorem hasValue_counts_keys_witness:
  "getStyle empty_store ''padding'' = JSUndefined \<and>
   getStyle empty_store ''margin'' = JSUndefined \<and>
   hasPaddingValue empty_store = Inr (JSBool False) \<and>
   hasMarginValue empty_store = Inr (JSBool False)"
proof -
  have "getStyle empty_store ''padding'' = JSUndefined"
    and "getStyle empty_store ''margin'' = JSUndefined"
    by (simp_all add: getStyle_def empty_store_def)
  with hasValue_counts_keys [of empty_store] show ?thesis by simp
qed

text \<open>
  C2 as stated fails: with every edge of the padding mapping present and absent,
  \<open>hasValue()\<close> is truthy (it returns the key count 4).
\<close>

theorem hasPaddingValue_all_absent_counterexample:
  "hasPaddingValue (setStyle empty_store ''padding''
     (JSObj [(''top'', JSUndefined), (''right'', JSUndefined),
             (''bottom'', JSUndefined), (''left'', JSUndefined)])) = Inr (JSNum 4) \<and>
   reports_value (hasPaddingValue (setStyle empty_store ''padding''
     (JSObj [(''top'', JSUndefined), (''right'', JSUndefined),
             (''bottom'', JSUndefined), (''left'', JSUndefined)]))) \<and>
   get_prop (paddingValues (setStyle empty_store ''padding''
     (JSObj [(''top'', JSUndefined), (''right'', JSUndefined),
             (''bottom'', JSUndefined), (''left'', JSUndefined)]))) ''top'' = Inr JSUndefined \<and>
   get_prop (paddingValues (setStyle empty_store ''padding''
     (JSObj [(''top'', JSUndefined), (''right'', JSUndefined),
             (''bottom'', JSUndefined), (''left'', JSUndefined)]))) ''right'' = Inr JSUndefined \<and>
   get_prop (paddingValues (setStyle empty_store ''padding''
     (JSObj [(''top'', JSUndefined), (''right'', JSUndefined),
             (''bottom'', JSUndefined), (''left'', JSUndefined)]))) ''bottom'' = Inr JSUndefined \<and>
   get_prop (paddingValues (setStyle empty_store ''padding''
     (JSObj [(''top'', JSUndefined), (''right'', JSUndefined),
             (''bottom'', JSUndefined), (''left'', JSUndefined)]))) ''left'' = Inr JSUndefined"
  by (simp add: hasPaddingValue_def paddingValues_def has_keys_def splitStyleValue_def
      setStyle_def getStyle_def reports_value_def get_own_def)

subsection \<open>C3: the box-model splitter\<close>

text \<open>
  C3, as amended: \<open>splitStyleValue\<close> turns a non-empty string into the mapping with the
  four side keys, each bound to the string, and returns every other input unchanged:
  an absent input stays absent, and a per-side mapping keeps exactly the keys it has, so
  that a key it lacks reads as absent and is never inferred from the other keys.
\<close>

theorem splitStyleValue_cases:
  "splitStyleValue (JSStr (c # cs)) =
     JSObj [(''top'', JSStr (c # cs)), (''right'', JSStr (c # cs)),
            (''bottom'', JSStr (c # cs)), (''left'', JSStr (c # cs))] \<and>
   splitStyleValue JSUndefined = JSUndefined \<and>
   splitStyleValue (JSObj ps) = JSObj ps \<and>
   (map_of ps k = None \<longrightarrow> get_prop (splitStyleValue (JSObj ps)) k = Inr JSUndefined) \<and>
   ((\<forall>c cs. v \<noteq> JSStr (c # cs)) \<longrightarrow> splitStyleValue v = v)"
proof -
  have "splitStyleValue v = v" if "\<forall>c cs. v \<noteq> JSStr (c # cs)"
  proof (cases v)
    case (JSStr s)
    with that have "s = []" by (cases s) auto
    with JSStr show ?thesis by (simp add: splitStyleValue_def)
  qed (simp_all add: splitStyleValue_def)
  then show ?thesis
    by (simp add: splitStyleValue_def get_own_def)
qed

theorem splitStyleValue_cases_witness:
  "map_of [(''top'', JSStr ''1px'')] ''left'' = None \<and>
   get_prop (splitStyleValue (JSObj [(''top'', JSStr ''1px'')])) ''left'' = Inr JSUndefined \<and>
   splitStyleValue (JSStr ''4px'') =
     JSObj [(''top'', JSStr ''4px''), (''right'', JSStr ''4px''),
            (''bottom'', JSStr ''4px''), (''left'', JSStr ''4px'')] \<and>
   splitStyleValue (JSNum 0) = JSNum 0"
  using splitStyleValue_cases
    [of "CHR ''4''" "''px''" "[(''top'', JSStr ''1px'')]" "''left''" "JSNum 0"]
  by (simp add: get_own_def)

text \<open>
  C3 as stated fails: an absent input gives no mapping at all, and a mapping with one
  key comes back with one key.
\<close>

theorem splitStyleValue_absent_counterexample:
  "splitStyleValue JSUndefined = JSUndefined \<and>
   get_prop (splitStyleValue JSUndefined) ''top'' = Inl TypeError \<and>
   splitStyleValue (JSObj [(''top'', JSStr ''1px'')]) = JSObj [(''top'', JSStr ''1px'')]"
  by (simp add: splitStyleValue_def)

subsection \<open>C4: reset\<close>

text \<open>
  C4, as amended: for padding and margin, \<open>reset()\<close> never throws and writes the filter of
  the empty mapping \<open>{}\<close> by the current subset; for a present subset that is the filter
  of the all-absent four-side mapping, for an absent subset it is \<open>{}\<close> itself. For gap,
  \<open>reset()\<close> writes the gap filter of the all-absent four-side mapping by the current
  subset, for every subset.
\<close>

theorem reset_writes_filtered_empty:
  "(\<exists>v. filterValuesBySides (JSObj []) sides = Inr v \<and>
        resetPaddingValue sides st = Inr (setStyle st ''padding'' v) \<and>
        resetMarginValue sides st = Inr (setStyle st ''margin'' v) \<and>
        (sides \<noteq> None \<longrightarrow>
           filterValuesBySides
             (JSObj [(''top'', JSUndefined), (''right'', JSUndefined),
                     (''bottom'', JSUndefined), (''left'', JSUndefined)]) sides = Inr v) \<and>
        (sides = None \<longrightarrow> v = JSObj [])) \<and>
   resetGapValue sides st =
     setStyle st ''--wp--style--block-gap''
       (filterGapValuesBySides
          (JSObj [(''top'', JSUndefined), (''right'', JSUndefined),
                  (''bottom'', JSUndefined), (''left'', JSUndefined)]) sides)"
proof -
  obtain v where v: "filterValuesBySides (JSObj []) sides = Inr v"
  proof (cases sides)
    case None
    with that show ?thesis by (simp add: filterValuesBySides_def)
  next
    case (Some ss)
    with that filter_obj_Some [of "[]" ss] show ?thesis by blast
  qed
  have pad: "resetPaddingValue sides st = Inr (setStyle st ''padding'' v)"
    by (simp add: resetPaddingValue_def setPaddingValues_def v)
  have mar: "resetMarginValue sides st = Inr (setStyle st ''margin'' v)"
    by (simp add: resetMarginValue_def setMarginValues_def v)
  have same: "sides \<noteq> None \<longrightarrow>
           filterValuesBySides
             (JSObj [(''top'', JSUndefined), (''right'', JSUndefined),
                     (''bottom'', JSUndefined), (''left'', JSUndefined)]) sides = Inr v"
    using v by (cases sides) (simp_all add: filter_all_absent)
  have none: "sides = None \<longrightarrow> v = JSObj []"
    using v by (auto simp: filterValuesBySides_def)
  have gap: "resetGapValue sides st =
     setStyle st ''--wp--style--block-gap''
       (filterGapValuesBySides
          (JSObj [(''top'', JSUndefined), (''right'', JSUndefined),
                  (''bottom'', JSUndefined), (''left'', JSUndefined)]) sides)"
  proof -
    have "filterGapValuesBySides (JSObj []) sides =
      filterGapValuesBySides
        (JSObj [(''top'', JSUndefined), (''right'', JSUndefined),
                (''bottom'', JSUndefined), (''left'', JSUndefined)]) sides"
      by (cases sides)
        (simp_all add: filterGapValuesBySides_def get_own_def
          gap_forEach_cong [of "JSObj []" "JSObj [(''top'', JSUndefined), (''right'', JSUndefined),
                (''bottom'', JSUndefined), (''left'', JSUndefined)]"])
    then show ?thesis by (simp add: resetGapValue_def setGapValues_def)
  qed
  from v pad mar same none gap show ?thesis by blast
qed

theorem reset_writes_filtered_empty_witness:
  "(None :: sides) = None \<and>
   resetPaddingValue None empty_store = Inr (setStyle empty_store ''padding'' (JSObj [])) \<and>
   resetMarginValue None empty_store = Inr (setStyle empty_store ''margin'' (JSObj [])) \<and>
   resetGapValue None empty_store =
     setStyle empty_store ''--wp--style--block-gap''
       (JSObj [(''row'', JSUndefined), (''column'', JSUndefined)]) \<and>
   Some [''top''] \<noteq> (None :: sides) \<and>
   resetPaddingValue (Some [''top'']) empty_store =
     Inr (setStyle empty_store ''padding'' (JSObj [(''top'', JSUndefined)])) \<and>
   filterValuesBySides
     (JSObj [(''top'', JSUndefined), (''right'', JSUndefined),
             (''bottom'', JSUndefined), (''left'', JSUndefined)]) (Some [''top'']) =
     Inr (JSObj [(''top'', JSUndefined)])"
proof -
  have gap: "filterGapValuesBySides
      (JSObj [(''top'', JSUndefined), (''right'', JSUndefined),
             (''bottom'', JSUndefined), (''left'', JSUndefined)]) None =
    JSObj [(''row'', JSUndefined), (''column'', JSUndefined)]"
    by (simp add: filterGapValuesBySides_def get_own_def)
  have top: "filterValuesBySides (JSObj []) (Some [''top'']) =
    Inr (JSObj [(''top'', JSUndefined)])"
    by (simp add: filterValuesBySides_def filterValuesBySides_side_def get_own_def)
  from reset_writes_filtered_empty [of None empty_store]
  have none: "resetPaddingValue None empty_store =
        Inr (setStyle empty_store ''padding'' (JSObj [])) \<and>
      resetMarginValue None empty_store = Inr (setStyle empty_store ''margin'' (JSObj [])) \<and>
      resetGapValue None empty_store =
        setStyle empty_store ''--wp--style--block-gap''
          (JSObj [(''row'', JSUndefined), (''column'', JSUndefined)])"
    unfolding gap by auto
  from reset_writes_filtered_empty [of "Some [''top'']" empty_store]
  have some: "resetPaddingValue (Some [''top'']) empty_store =
        Inr (setStyle empty_store ''padding'' (JSObj [(''top'', JSUndefined)])) \<and>
      filterValuesBySides
        (JSObj [(''top'', JSUndefined), (''right'', JSUndefined),
             (''bottom'', JSUndefined), (''left'', JSUndefined)]) (Some [''top'']) =
        Inr (JSObj [(''top'', JSUndefined)])"
    unfolding top by auto
  from none some show ?thesis by simp
qed

text \<open>
  C4 as stated fails: under an absent subset a padding reset writes the empty mapping
  \<open>{}\<close>, where the filter of the all-absent four-side mapping by an absent subset is
  that mapping itself, with its four keys.
\<close>

theorem reset_absent_subset_counterexample:
  "resetPaddingValue None empty_store =
     Inr (setStyle empty_store ''padding'' (JSObj [])) \<and>
   filterValuesBySides
     (JSObj [(''top'', JSUndefined), (''right'', JSUndefined),
             (''bottom'', JSUndefined), (''left'', JSUndefined)]) None =
     Inr (JSObj [(''top'', JSUndefined), (''right'', JSUndefined),
             (''bottom'', JSUndefined), (''left'', JSUndefined)]) \<and>
   JSObj [] \<noteq>
     JSObj [(''top'', JSUndefined), (''right'', JSUndefined),
            (''bottom'', JSUndefined), (''left'', JSUndefined)]"
  by (simp add: resetPaddingValue_def setPaddingValues_def filterValuesBySides_def)

subsection \<open>C5: subset entries that name neither a side nor an axis\<close>

text \<open>
  C5, as amended: an entry that is neither a side nor an axis token, and is not the name
  of a member of \<open>Object.prototype\<close>, never makes the filter of a mapping fail, and it is
  not skipped: it is handled as a key of its own, so it contributes exactly the key of its
  own name, bound to the value the edited mapping has under that name, which is absent
  when the edited mapping has the four side keys only.
\<close>

theorem unrecognized_entry_copied:
  assumes "e \<notin> {''top'', ''right'', ''bottom'', ''left'', ''horizontal'', ''vertical''}"
    and "e \<notin> set object_prototype_names"
  shows "(\<exists>fv'. filterValuesBySides_side (JSObj kv) fv e = Inr fv' \<and>
       map_of fv' = (map_of fv)(e \<mapsto> get_own kv e)) \<and>
    (e \<in> set ss \<longrightarrow>
       (\<exists>out. filterValuesBySides (JSObj kv) (Some ss) = Inr (JSObj out) \<and>
          map_of out e = Some (get_own kv e))) \<and>
    (fst ` set kv \<subseteq> {''top'', ''right'', ''bottom'', ''left''} \<longrightarrow> get_own kv e = JSUndefined)"
proof (intro conjI impI)
  from assms(1)
  have "filterValuesBySides_side (JSObj kv) fv e = Inr (set_prop fv e (get_own kv e))"
    by (simp add: side_obj)
  then show "\<exists>fv'. filterValuesBySides_side (JSObj kv) fv e = Inr fv' \<and>
       map_of fv' = (map_of fv)(e \<mapsto> get_own kv e)"
    by (simp add: map_of_set_prop)
next
  assume "e \<in> set ss"
  with filter_obj_Some [of kv ss] forEach_obj_lookup [of kv ss _ e]
  show "\<exists>out. filterValuesBySides (JSObj kv) (Some ss) = Inr (JSObj out) \<and>
          map_of out e = Some (get_own kv e)"
    by blast
next
  assume "fst ` set kv \<subseteq> {''top'', ''right'', ''bottom'', ''left''}"
  with assms(1) have "e \<notin> fst ` set kv" by blast
  then have "map_of kv e = None" by (simp add: map_of_eq_None_iff)
  then show "get_own kv e = JSUndefined" by (simp add: get_own_def)
qed

theorem unrecognized_entry_copied_witness:
  "''diagonal'' \<notin> {''top'', ''right'', ''bottom'', ''left'', ''horizontal'', ''vertical''} \<and>
   ''diagonal'' \<notin> set object_prototype_names \<and>
   ''diagonal'' \<in> set [''top'', ''diagonal''] \<and>
   fst ` set [(''top'', JSStr ''4px''), (''right'', JSStr ''4px''),
              (''bottom'', JSStr ''4px''), (''left'', JSStr ''4px'')]
     \<subseteq> {''top'', ''right'', ''bottom'', ''left''} \<and>
   (\<exists>fv'. filterValuesBySides_side
      (JSObj [(''top'', JSStr ''4px''), (''right'', JSStr ''4px''),
             (''bottom'', JSStr ''4px''), (''left'', JSStr ''4px'')]) [] ''diagonal'' = Inr fv' \<and>
      map_of fv' = [''diagonal'' \<mapsto> JSUndefined]) \<and>
   (\<exists>out. filterValuesBySides
      (JSObj [(''top'', JSStr ''4px''), (''right'', JSStr ''4px''),
             (''bottom'', JSStr ''4px''), (''left'', JSStr ''4px'')])
      (Some [''top'', ''diagonal'']) = Inr (JSObj out) \<and>
      map_of out ''diagonal'' = Some JSUndefined)"
proof -
  have h: "''diagonal'' \<notin> {''top'', ''right'', ''bottom'', ''left'', ''horizontal'', ''vertical''}"
    by simp
  have p: "''diagonal'' \<notin> set object_prototype_names"
    by (simp add: object_prototype_names_def)
  have u: "get_own [(''top'', JSStr ''4px''), (''right'', JSStr ''4px''),
              (''bottom'', JSStr ''4px''), (''left'', JSStr ''4px'')] ''diagonal'' = JSUndefined"
    by (simp add: get_own_def)
  from unrecognized_entry_copied [OF h p,
      of "[(''top'', JSStr ''4px''), (''right'', JSStr ''4px''),
           (''bottom'', JSStr ''4px''), (''left'', JSStr ''4px'')]" "[]"
         "[''top'', ''diagonal'']"] p
  show ?thesis unfolding u by simp
qed

text \<open>
  C5 as stated fails: the entry \<open>diagonal\<close> is emitted as a key with an absent value.
\<close>

theorem unrecognized_entry_counterexample:
  "filterValuesBySides
     (JSObj [(''top'', JSStr ''4px''), (''right'', JSStr ''4px''),
             (''bottom'', JSStr ''4px''), (''left'', JSStr ''4px'')]) (Some [''diagonal'']) =
   Inr (JSObj [(''diagonal'', JSUndefined)])"
  by (simp add: filterValuesBySides_def filterValuesBySides_side_def get_own_def)

subsection \<open>C6: the default border style\<close>

text \<open>
  C6: writing a border width or a border color that is set (truthy, as the handler tests
  it) while no border style is set (falsy) first writes the style \<open>solid\<close> and then the
  width or color, so that the style reads \<open>solid\<close> afterwards; writing an absent width
  makes the one write of the width, and leaves the border style as it was.
\<close>

theorem border_width_color_default_style:
  "(truthy v \<and> \<not> truthy (getStyle st ''border.style'') \<longrightarrow>
      onChangeBorderWidth st v =
        [(''border.style'', JSStr ''solid''), (''border.width'', v)] \<and>
      onChangeBorderColor st v =
        [(''border.style'', JSStr ''solid''), (''border.color'', v)] \<and>
      getStyle (apply_writes st (onChangeBorderWidth st v)) ''border.style'' = JSStr ''solid'' \<and>
      getStyle (apply_writes st (onChangeBorderColor st v)) ''border.style'' = JSStr ''solid'') \<and>
   onChangeBorderWidth st JSUndefined = [(''border.width'', JSUndefined)] \<and>
   getStyle (apply_writes st (onChangeBorderWidth st JSUndefined)) ''border.style'' =
     getStyle st ''border.style''"
  by (simp add: onChangeBorderWidth_def onChangeBorderColor_def handleOnChangeWithStyle_def
      or_undefined_def apply_writes_def setStyle_def getStyle_def)

theorem border_width_color_default_style_witness:
  "truthy (JSStr ''2px'') \<and> \<not> truthy (getStyle empty_store ''border.style'') \<and>
   onChangeBorderWidth empty_store (JSStr ''2px'') =
     [(''border.style'', JSStr ''solid''), (''border.width'', JSStr ''2px'')] \<and>
   onChangeBorderColor empty_store (JSStr ''2px'') =
     [(''border.style'', JSStr ''solid''), (''border.color'', JSStr ''2px'')]"
proof -
  have "truthy (JSStr ''2px'')" and "\<not> truthy (getStyle empty_store ''border.style'')"
    by (simp_all add: getStyle_def empty_store_def)
  with border_width_color_default_style [of "JSStr ''2px''" empty_store]
  show ?thesis by simp
qed

subsection \<open>C7: the gap round trip\<close>

text \<open>
  C7: for all values \<open>r\<close> and \<open>c\<close>, splitting the gap \<open>{row: r, column: c}\<close> gives
  \<open>{top: r, right: c, bottom: r, left: c}\<close>, and filtering that by an absent subset gives
  exactly \<open>{row: r, column: c}\<close>.
\<close>

theorem gap_round_trip:
  "splitGapStyleValue (JSObj [(''row'', r), (''column'', c)]) =
     JSObj [(''top'', r), (''right'', c), (''bottom'', r), (''left'', c)] \<and>
   filterGapValuesBySides
     (JSObj [(''top'', r), (''right'', c), (''bottom'', r), (''left'', c)]) None =
     JSObj [(''row'', r), (''column'', c)]"
  by (simp add: splitGapStyleValue_def filterGapValuesBySides_def get_own_def)

theorem gap_round_trip_witness:
  "splitGapStyleValue (JSObj [(''row'', JSStr ''10px''), (''column'', JSStr ''5px'')]) =
     JSObj [(''top'', JSStr ''10px''), (''right'', JSStr ''5px''),
            (''bottom'', JSStr ''10px''), (''left'', JSStr ''5px'')] \<and>
   filterGapValuesBySides
     (JSObj [(''top'', JSStr ''10px''), (''right'', JSStr ''5px''),
             (''bottom'', JSStr ''10px''), (''left'', JSStr ''5px'')]) None =
     JSObj [(''row'', JSStr ''10px''), (''column'', JSStr ''5px'')]"
  using gap_round_trip [of "JSStr ''10px''" "JSStr ''5px''"] by simp

subsection \<open>C8: the gap filter reads top and left only\<close>

text \<open>
  C8: two edited values that agree on \<open>top\<close> and on \<open>left\<close> have the same gap filter
  under every subset, present or absent; and under a present subset the entries other
  than the two axis tokens contribute nothing: dropping them leaves the result as it is,
  and its keys are \<open>column\<close> when \<open>horizontal\<close> occurs and \<open>row\<close> when \<open>vertical\<close>
  occurs, no others.
\<close>

theorem filterGap_top_left_only:
  assumes "get_prop_opt v1 ''top'' = get_prop_opt v2 ''top''"
    and "get_prop_opt v1 ''left'' = get_prop_opt v2 ''left''"
  shows "filterGapValuesBySides v1 sides = filterGapValuesBySides v2 sides \<and>
    (\<forall>ss. filterGapValuesBySides v1 (Some ss) =
       filterGapValuesBySides v1
         (Some (filter (\<lambda>s. s = ''horizontal'' \<or> s = ''vertical'') ss))) \<and>
    (\<forall>ss ps. filterGapValuesBySides v1 (Some ss) = JSObj ps \<longrightarrow>
       fst ` set ps =
         (if ''horizontal'' \<in> set ss then {''column''} else {}) \<union>
         (if ''vertical'' \<in> set ss then {''row''} else {}))"
proof (intro conjI allI impI)
  show "filterGapValuesBySides v1 sides = filterGapValuesBySides v2 sides"
    using assms
    by (cases sides) (simp_all add: filterGapValuesBySides_def gap_forEach_cong [OF assms])
next
  fix ss
  show "filterGapValuesBySides v1 (Some ss) =
       filterGapValuesBySides v1
         (Some (filter (\<lambda>s. s = ''horizontal'' \<or> s = ''vertical'') ss))"
    by (simp add: filterGapValuesBySides_def gap_forEach_axial_only)
next
  fix ss ps
  assume "filterGapValuesBySides v1 (Some ss) = JSObj ps"
  then have "ps = filterGapValuesBySides_forEach v1 ss []"
    by (simp add: filterGapValuesBySides_def)
  then show "fst ` set ps =
         (if ''horizontal'' \<in> set ss then {''column''} else {}) \<union>
         (if ''vertical'' \<in> set ss then {''row''} else {})"
    by (simp add: gap_forEach_keys)
qed

theorem filterGap_top_left_only_witness:
  "get_prop_opt (JSObj [(''top'', JSStr ''10px''), (''right'', JSStr ''1px''),
                        (''bottom'', JSStr ''2px''), (''left'', JSStr ''5px'')]) ''top'' =
   get_prop_opt (JSObj [(''top'', JSStr ''10px''), (''left'', JSStr ''5px'')]) ''top'' \<and>
   get_prop_opt (JSObj [(''top'', JSStr ''10px''), (''right'', JSStr ''1px''),
                        (''bottom'', JSStr ''2px''), (''left'', JSStr ''5px'')]) ''left'' =
   get_prop_opt (JSObj [(''top'', JSStr ''10px''), (''left'', JSStr ''5px'')]) ''left'' \<and>
   filterGapValuesBySides
     (JSObj [(''top'', JSStr ''10px''), (''right'', JSStr ''1px''),
             (''bottom'', JSStr ''2px''), (''left'', JSStr ''5px'')])
     (Some [''vertical'', ''right'']) =
   filterGapValuesBySides (JSObj [(''top'', JSStr ''10px''), (''left'', JSStr ''5px'')])
     (Some [''vertical'', ''right'']) \<and>
   filterGapValuesBySides
     (JSObj [(''top'', JSStr ''10px''), (''right'', JSStr ''1px''),
             (''bottom'', JSStr ''2px''), (''left'', JSStr ''5px'')])
     (Some [''vertical'', ''right'']) = JSObj [(''row'', JSStr ''10px'')] \<and>
   fst ` set [(''row'', JSStr ''10px'')] = {''row''}"
proof -
  have r: "filterGapValuesBySides
     (JSObj [(''top'', JSStr ''10px''), (''right'', JSStr ''1px''),
             (''bottom'', JSStr ''2px''), (''left'', JSStr ''5px'')])
     (Some [''vertical'', ''right'']) = JSObj [(''row'', JSStr ''10px'')]"
    by (simp add: filterGapValuesBySides_def filterGapValuesBySides_side_def get_own_def)
  have t: "get_prop_opt (JSObj [(''top'', JSStr ''10px''), (''right'', JSStr ''1px''),
                        (''bottom'', JSStr ''2px''), (''left'', JSStr ''5px'')]) ''top'' =
   get_prop_opt (JSObj [(''top'', JSStr ''10px''), (''left'', JSStr ''5px'')]) ''top''"
    by (simp add: get_own_def)
  have l: "get_prop_opt (JSObj [(''top'', JSStr ''10px''), (''right'', JSStr ''1px''),
                        (''bottom'', JSStr ''2px''), (''left'', JSStr ''5px'')]) ''left'' =
   get_prop_opt (JSObj [(''top'', JSStr ''10px''), (''left'', JSStr ''5px'')]) ''left''"
    by (simp add: get_own_def)
  from filterGap_top_left_only [OF t l, of "Some [''vertical'', ''right'']"]
  have "filterGapValuesBySides
     (JSObj [(''top'', JSStr ''10px''), (''right'', JSStr ''1px''),
             (''bottom'', JSStr ''2px''), (''left'', JSStr ''5px'')])
     (Some [''vertical'', ''right'']) =
   filterGapValuesBySides (JSObj [(''top'', JSStr ''10px''), (''left'', JSStr ''5px'')])
     (Some [''vertical'', ''right''])"
    and "fst ` set [(''row'', JSStr ''10px'')] = {''row''}"
    using r by simp_all
  with t l r show ?thesis by blast
qed

subsection \<open>C9: hasValue of the border radius\<close>

text \<open>
  C9: when the radius of the user's border styles is an object, \<open>hasBorderRadius\<close> returns
  \<open>true\<close> exactly when the object has at least one key, whatever the values under the
  keys.
\<close>

theorem hasBorderRadius_counts_entries:
  "get_prop_opt userBorderStyles ''radius'' = JSObj ps \<Longrightarrow>
   hasBorderRadius userBorderStyles = Inr (JSBool (ps \<noteq> []))"
  by (simp add: hasBorderRadius_def list_ex_entry_truthy)

theorem hasBorderRadius_counts_entries_witness:
  "get_prop_opt (JSObj [(''radius'', JSObj [(''topLeft'', JSUndefined)])]) ''radius'' =
     JSObj [(''topLeft'', JSUndefined)] \<and>
   hasBorderRadius (JSObj [(''radius'', JSObj [(''topLeft'', JSUndefined)])]) =
     Inr (JSBool True)"
proof -
  have r: "get_prop_opt (JSObj [(''radius'', JSObj [(''topLeft'', JSUndefined)])]) ''radius'' =
     JSObj [(''topLeft'', JSUndefined)]"
    by (simp add: get_own_def)
  from hasBorderRadius_counts_entries [OF r] r show ?thesis by simp
qed

subsection \<open>C10: a falsy edit writes undefined\<close>

text \<open>
  C10: for an edit of the border width, style or color with a falsy value, the handler
  makes one write, of \<open>undefined\<close>, to the edited path: the store is never handed the
  falsy value itself.
\<close>

theorem falsy_edit_writes_undefined:
  "\<not> truthy v \<Longrightarrow>
     handleOnChange setter v = [(setter, JSUndefined)] \<and>
     handleOnChangeWithStyle borderStyle setter v = [(setter, JSUndefined)] \<and>
     onChangeBorderWidth st v = [(''border.width'', JSUndefined)] \<and>
     onChangeBorderStyle st v = [(''border.style'', JSUndefined)] \<and>
     onChangeBorderColor st v = [(''border.color'', JSUndefined)]"
  by (simp add: handleOnChange_def handleOnChangeWithStyle_def or_undefined_def
      onChangeBorderWidth_def onChangeBorderStyle_def onChangeBorderColor_def)

theorem falsy_edit_writes_undefined_witness:
  "\<not> truthy (JSStr '''') \<and> \<not> truthy (JSNum 0) \<and>
   onChangeBorderWidth empty_store (JSStr '''') = [(''border.width'', JSUndefined)] \<and>
   onChangeBorderStyle empty_store (JSStr '''') = [(''border.style'', JSUndefined)] \<and>
   onChangeBorderColor empty_store (JSNum 0) = [(''border.color'', JSUndefined)]"
proof -
  have e: "\<not> truthy (JSStr '''')" and z: "\<not> truthy (JSNum 0)" by simp_all
  from falsy_edit_writes_undefined [OF e, where st = empty_store]
    falsy_edit_writes_undefined [OF z, where st = empty_store] e z
  show ?thesis by blast
qed

end
